theory Spec2Isabelle
  imports Complex_Main
begin

section \<open>Floating-point values\<close>

text \<open>
  The program computes on binary64 values.  A value is a finite number, one of the two
  infinities, or NaN.  Every finite binary64 value is a real number, so the finite values
  are embedded in \<open>real\<close>; a statement proved for all \<open>Fin r\<close> holds in particular for the
  finite binary64 values.  Comparison, negation and absolute value are exact on binary64
  and are defined outright.  An order comparison with NaN on either side is false.
  The sign of a zero is not represented: the only operation of the program that
  distinguishes the two zeros is a division by zero, and the only divisor of the program
  is a sum of absolute values, which is never the negative zero.
\<close>

datatype fl = Fin real | PInf | NInf | NaN

fun flt :: "fl \<Rightarrow> fl \<Rightarrow> bool" where
  "flt (Fin a) (Fin b) = (a < b)"
| "flt (Fin a) PInf = True"
| "flt NInf (Fin b) = True"
| "flt NInf PInf = True"
| "flt _ _ = False"

definition fgt :: "fl \<Rightarrow> fl \<Rightarrow> bool" where
  "fgt x y = flt y x"

fun fle :: "fl \<Rightarrow> fl \<Rightarrow> bool" where
  "fle (Fin a) (Fin b) = (a \<le> b)"
| "fle NaN _ = False"
| "fle _ NaN = False"
| "fle NInf _ = True"
| "fle _ PInf = True"
| "fle _ _ = False"

fun fneg :: "fl \<Rightarrow> fl" where
  "fneg (Fin a) = Fin (- a)"
| "fneg PInf = NInf"
| "fneg NInf = PInf"
| "fneg NaN = NaN"

fun fabs :: "fl \<Rightarrow> fl" where
  "fabs (Fin a) = Fin \<bar>a\<bar>"
| "fabs PInf = PInf"
| "fabs NInf = PInf"
| "fabs NaN = NaN"

definition is_finite :: "fl \<Rightarrow> bool" where
  "is_finite x = (case x of Fin _ \<Rightarrow> True | _ \<Rightarrow> False)"

text \<open>
  Addition, subtraction, multiplication and division of two finite values, and the square
  root of one, are the exact real result rounded to binary64.  The rounding \<open>R\<close> (to nearest, ties to
  even, a result too large in magnitude becoming an infinity) is a parameter of the
  model: the theorems hold for every rounding, and where a theorem needs a property of
  the rounding (zero is rounded to zero) the property is a hypothesis.  The results on
  infinities and NaN are those of IEEE 754; no operation raises.
\<close>

fun fadd :: "(real \<Rightarrow> fl) \<Rightarrow> fl \<Rightarrow> fl \<Rightarrow> fl" where
  "fadd R NaN y = NaN"
| "fadd R x NaN = NaN"
| "fadd R (Fin a) (Fin b) = R (a + b)"
| "fadd R PInf NInf = NaN"
| "fadd R NInf PInf = NaN"
| "fadd R PInf y = PInf"
| "fadd R NInf y = NInf"
| "fadd R (Fin a) y = y"

fun fsub :: "(real \<Rightarrow> fl) \<Rightarrow> fl \<Rightarrow> fl \<Rightarrow> fl" where
  "fsub R NaN y = NaN"
| "fsub R x NaN = NaN"
| "fsub R (Fin a) (Fin b) = R (a - b)"
| "fsub R PInf PInf = NaN"
| "fsub R NInf NInf = NaN"
| "fsub R PInf y = PInf"
| "fsub R NInf y = NInf"
| "fsub R (Fin a) y = fneg y"

fun fmul :: "(real \<Rightarrow> fl) \<Rightarrow> fl \<Rightarrow> fl \<Rightarrow> fl" where
  "fmul R NaN y = NaN"
| "fmul R x NaN = NaN"
| "fmul R (Fin a) (Fin b) = R (a * b)"
| "fmul R (Fin a) PInf = (if a = 0 then NaN else if 0 < a then PInf else NInf)"
| "fmul R (Fin a) NInf = (if a = 0 then NaN else if 0 < a then NInf else PInf)"
| "fmul R PInf (Fin b) = (if b = 0 then NaN else if 0 < b then PInf else NInf)"
| "fmul R NInf (Fin b) = (if b = 0 then NaN else if 0 < b then NInf else PInf)"
| "fmul R PInf PInf = PInf"
| "fmul R PInf NInf = NInf"
| "fmul R NInf PInf = NInf"
| "fmul R NInf NInf = PInf"

text \<open>
  A finite value divided by zero is an infinity with the sign of the dividend, or NaN
  when the dividend is zero too; the divisor zero is the positive zero (see above).
\<close>

fun fdiv :: "(real \<Rightarrow> fl) \<Rightarrow> fl \<Rightarrow> fl \<Rightarrow> fl" where
  "fdiv R NaN y = NaN"
| "fdiv R x NaN = NaN"
| "fdiv R (Fin a) (Fin b) =
     (if b = 0 then (if a = 0 then NaN else if 0 < a then PInf else NInf) else R (a / b))"
| "fdiv R (Fin a) y = Fin 0"
| "fdiv R PInf (Fin b) = (if 0 \<le> b then PInf else NInf)"
| "fdiv R NInf (Fin b) = (if 0 \<le> b then NInf else PInf)"
| "fdiv R x y = NaN"

fun np_sqrt :: "(real \<Rightarrow> fl) \<Rightarrow> fl \<Rightarrow> fl" where
  "np_sqrt R (Fin a) = (if a < 0 then NaN else R (sqrt a))"
| "np_sqrt R PInf = PInf"
| "np_sqrt R x = NaN"

section \<open>Series\<close>

text \<open>
  A pandas Series is a sequence of rows, each a label of the index with a value.
  \<open>pd_Series values index\<close> is the constructor \<open>pd.Series(values, index)\<close> on a list of
  values: it raises ValueError when the two lengths differ.
\<close>

type_synonym ('i, 'v) series = "('i \<times> 'v) list"

datatype error = ValueError | LibraryError

definition index :: "('i, 'v) series \<Rightarrow> 'i list" where
  "index s = map fst s"

definition values_of :: "('i, 'v) series \<Rightarrow> 'v list" where
  "values_of s = map snd s"

definition iloc :: "('i, 'v) series \<Rightarrow> nat \<Rightarrow> 'v" where
  "iloc s i = snd (s ! i)"

definition pd_Series :: "'v list \<Rightarrow> 'i list \<Rightarrow> error + ('i, 'v) series" where
  "pd_Series vs idx = (if length vs = length idx then Inr (zip idx vs) else Inl ValueError)"

section \<open>generate_positions\<close>

text \<open>
  The loop state is the triple of the local variables \<open>positions\<close>, \<open>in_trade\<close> and
  \<open>entry_side\<close>.  \<open>gp_body\<close> is one iteration of the loop on the value \<open>z = zscore.iloc[i]\<close>;
  the chain \<open>if / elif / elif\<close> of the source has no final \<open>else\<close>, so a value of
  \<open>in_trade\<close> other than 0, 1 and -1 leaves the state as it is.
\<close>

type_synonym gp_state = "int list \<times> int \<times> int"

definition gp_body :: "fl \<Rightarrow> fl \<Rightarrow> fl \<Rightarrow> fl \<Rightarrow> gp_state \<Rightarrow> gp_state" where
  "gp_body entry_threshold exit_threshold stop_z z st =
     (case st of (positions, in_trade, entry_side) \<Rightarrow>
        if in_trade = 0 then
          (if fgt z entry_threshold then (positions @ [- 1], - 1, - 1)
           else if flt z (fneg entry_threshold) then (positions @ [1], 1, 1)
           else (positions @ [0], in_trade, entry_side))
        else if in_trade = 1 then
          (if flt (fabs z) exit_threshold then (positions @ [0], 0, 0)
           else if flt z (fneg stop_z) then (positions @ [0], 0, 0)
           else (positions @ [1], in_trade, entry_side))
        else if in_trade = - 1 then
          (if flt (fabs z) exit_threshold then (positions @ [0], 0, 0)
           else if fgt z stop_z then (positions @ [0], 0, 0)
           else (positions @ [- 1], in_trade, entry_side))
        else st)"

definition gp_loop :: "('i, fl) series \<Rightarrow> fl \<Rightarrow> fl \<Rightarrow> fl \<Rightarrow> gp_state" where
  "gp_loop zscore entry_threshold exit_threshold stop_z =
     fold (\<lambda>i. gp_body entry_threshold exit_threshold stop_z (iloc zscore i))
       [0 ..< length zscore] ([], 0, 0)"

definition generate_positions ::
    "('i, fl) series \<Rightarrow> fl \<Rightarrow> fl \<Rightarrow> fl \<Rightarrow> error + ('i, int) series" where
  "generate_positions zscore entry_threshold exit_threshold stop_z =
     (case gp_loop zscore entry_threshold exit_threshold stop_z of
        (positions, in_trade, entry_side) \<Rightarrow> pd_Series positions (index zscore))"

definition default_stop_z :: fl where
  "default_stop_z = Fin 3"

subsection \<open>The state machine of the specification\<close>

text \<open>
  The three states and the transition table as the specification words them, with the
  conditions of a row checked in order; \<open>sm_trace\<close> is the sequence of states the machine
  goes through, and \<open>position_of\<close> the position it emits in a state.
\<close>

datatype sm_state = Flat | Long | Short

fun sm_step :: "fl \<Rightarrow> fl \<Rightarrow> fl \<Rightarrow> sm_state \<Rightarrow> fl \<Rightarrow> sm_state" where
  "sm_step entryThreshold exitThreshold stopZ Flat z =
     (if fgt z entryThreshold then Short
      else if flt z (fneg entryThreshold) then Long
      else Flat)"
| "sm_step entryThreshold exitThreshold stopZ Long z =
     (if flt (fabs z) exitThreshold then Flat
      else if flt z (fneg stopZ) then Flat
      else Long)"
| "sm_step entryThreshold exitThreshold stopZ Short z =
     (if flt (fabs z) exitThreshold then Flat
      else if fgt z stopZ then Flat
      else Short)"

fun sm_trace :: "fl \<Rightarrow> fl \<Rightarrow> fl \<Rightarrow> sm_state \<Rightarrow> fl list \<Rightarrow> sm_state list" where
  "sm_trace e x s st [] = []"
| "sm_trace e x s st (z # zs) = sm_step e x s st z # sm_trace e x s (sm_step e x s st z) zs"

fun position_of :: "sm_state \<Rightarrow> int" where
  "position_of Flat = 0"
| "position_of Long = 1"
| "position_of Short = - 1"

section \<open>calculate_returns\<close>

text \<open>
  Operations on series.  An arithmetic operation on two series pairs the rows by label;
  for two series over the same index that is row by row, which is what \<open>sbin\<close> does (the
  inputs of the functions below are series over one index).  \<open>reindex s idx\<close> is
  \<open>pd.Series(s, index=idx)\<close> for a series \<open>s\<close> of distinct labels: the value of each label
  of \<open>idx\<close> in \<open>s\<close>, NaN for a label \<open>s\<close> does not have.  \<open>shift1\<close> is \<open>shift(1)\<close>, \<open>diff\<close> is \<open>diff()\<close>,
  \<open>fillna0\<close> is \<open>fillna(0)\<close> and \<open>replace_inf0\<close> is \<open>replace([np.inf, -np.inf], 0)\<close>.
\<close>

definition smap :: "('v \<Rightarrow> 'w) \<Rightarrow> ('i, 'v) series \<Rightarrow> ('i, 'w) series" where
  "smap f s = map (\<lambda>(i, v). (i, f v)) s"

definition sbin :: "('u \<Rightarrow> 'v \<Rightarrow> 'w) \<Rightarrow> ('i, 'u) series \<Rightarrow> ('i, 'v) series \<Rightarrow> ('i, 'w) series" where
  "sbin f a b = map (\<lambda>((i, u), (j, v)). (i, f u v)) (zip a b)"

definition reindex :: "('i, fl) series \<Rightarrow> 'i list \<Rightarrow> ('i, fl) series" where
  "reindex s idx = map (\<lambda>i. (i, case map_of s i of Some v \<Rightarrow> v | None \<Rightarrow> NaN)) idx"

definition const_series :: "fl \<Rightarrow> 'i list \<Rightarrow> ('i, fl) series" where
  "const_series c idx = map (\<lambda>i. (i, c)) idx"

definition shift1 :: "('i, fl) series \<Rightarrow> ('i, fl) series" where
  "shift1 s = zip (index s) (NaN # butlast (values_of s))"

definition diff :: "(real \<Rightarrow> fl) \<Rightarrow> ('i, fl) series \<Rightarrow> ('i, fl) series" where
  "diff R s = sbin (fsub R) s (shift1 s)"

definition nan_to_zero :: "fl \<Rightarrow> fl" where
  "nan_to_zero v = (if v = NaN then Fin 0 else v)"

definition fillna0 :: "('i, fl) series \<Rightarrow> ('i, fl) series" where
  "fillna0 s = smap nan_to_zero s"

definition inf_to_zero :: "fl \<Rightarrow> fl" where
  "inf_to_zero v = (if v = PInf \<or> v = NInf then Fin 0 else v)"

definition replace_inf0 :: "('i, fl) series \<Rightarrow> ('i, fl) series" where
  "replace_inf0 s = smap inf_to_zero s"

text \<open>
  \<open>cumsum\<close> and \<open>cumprod\<close> skip NaN: a NaN row stays NaN in the result and leaves the
  running value as it is; the running value starts with the first row that is not NaN.
\<close>

fun cum_from :: "(fl \<Rightarrow> fl \<Rightarrow> fl) \<Rightarrow> fl option \<Rightarrow> fl list \<Rightarrow> fl list" where
  "cum_from f acc [] = []"
| "cum_from f acc (x # xs) =
     (if x = NaN then NaN # cum_from f acc xs
      else (let a = (case acc of None \<Rightarrow> x | Some y \<Rightarrow> f y x)
            in a # cum_from f (Some a) xs))"

definition cumsum :: "(real \<Rightarrow> fl) \<Rightarrow> ('i, fl) series \<Rightarrow> ('i, fl) series" where
  "cumsum R s = zip (index s) (cum_from (fadd R) None (values_of s))"

definition cumprod :: "(real \<Rightarrow> fl) \<Rightarrow> ('i, fl) series \<Rightarrow> ('i, fl) series" where
  "cumprod R s = zip (index s) (cum_from (fmul R) None (values_of s))"

text \<open>
  The intermediate series of \<open>calculate_returns\<close>, under the names of the source.
  \<open>alphas\<close> is \<open>None\<close> for the default argument.  The functions \<open>mean\<close> and \<open>std\<close> of a
  series (\<open>Series.mean\<close>, \<open>Series.std\<close>) belong to the library and are parameters.
\<close>

definition betas_series :: "('i, fl) series \<Rightarrow> ('i, fl) series \<Rightarrow> ('i, fl) series" where
  "betas_series px betas = reindex betas (index px)"

definition alphas_series :: "('i, fl) series \<Rightarrow> ('i, fl) series option \<Rightarrow> ('i, fl) series" where
  "alphas_series px alphas =
     (case alphas of None \<Rightarrow> const_series (Fin 0) (index px)
      | Some a \<Rightarrow> reindex a (index px))"

definition spread_of ::
    "(real \<Rightarrow> fl) \<Rightarrow> ('i, fl) series \<Rightarrow> ('i, fl) series \<Rightarrow> ('i, fl) series
     \<Rightarrow> ('i, fl) series option \<Rightarrow> ('i, fl) series" where
  "spread_of R px py betas alphas =
     sbin (fsub R) px
       (sbin (fadd R) (alphas_series px alphas) (sbin (fmul R) (betas_series px betas) py))"

definition spread_change ::
    "(real \<Rightarrow> fl) \<Rightarrow> ('i, fl) series \<Rightarrow> ('i, fl) series \<Rightarrow> ('i, fl) series
     \<Rightarrow> ('i, fl) series option \<Rightarrow> ('i, fl) series" where
  "spread_change R px py betas alphas = fillna0 (diff R (spread_of R px py betas alphas))"

definition pos_lag :: "('i, fl) series \<Rightarrow> ('i, fl) series" where
  "pos_lag positions = fillna0 (shift1 positions)"

definition gross_notional ::
    "(real \<Rightarrow> fl) \<Rightarrow> ('i, fl) series \<Rightarrow> ('i, fl) series \<Rightarrow> ('i, fl) series
     \<Rightarrow> ('i, fl) series" where
  "gross_notional R px py betas =
     sbin (fadd R) (smap fabs px)
       (sbin (fmul R) (smap fabs (betas_series px betas)) (smap fabs py))"

definition units_traded :: "(real \<Rightarrow> fl) \<Rightarrow> ('i, fl) series \<Rightarrow> ('i, fl) series" where
  "units_traded R positions = fillna0 (smap fabs (diff R positions))"

text \<open>
  \<open>shift\<close> and \<open>diff\<close> turn a series of integers, such as the positions that
  \<open>generate_positions\<close> returns, into a series of binary64 values first.
\<close>

definition as_float :: "('i, int) series \<Rightarrow> ('i, fl) series" where
  "as_float s = smap (\<lambda>p. Fin (real_of_int p)) s"

definition daily_costs ::
    "(real \<Rightarrow> fl) \<Rightarrow> ('i, fl) series \<Rightarrow> ('i, fl) series \<Rightarrow> ('i, fl) series
     \<Rightarrow> ('i, fl) series \<Rightarrow> fl \<Rightarrow> ('i, fl) series" where
  "daily_costs R px py positions betas tc =
     sbin (fmul R) (smap (fmul R tc) (gross_notional R px py betas)) (units_traded R positions)"

definition capital_shift ::
    "(real \<Rightarrow> fl) \<Rightarrow> ('i, fl) series \<Rightarrow> ('i, fl) series \<Rightarrow> ('i, fl) series
     \<Rightarrow> ('i, fl) series" where
  "capital_shift R px py betas = shift1 (gross_notional R px py betas)"

definition to_return :: "(real \<Rightarrow> fl) \<Rightarrow> ('i, fl) series \<Rightarrow> ('i, fl) series \<Rightarrow> ('i, fl) series" where
  "to_return R pnl capital = fillna0 (replace_inf0 (sbin (fdiv R) pnl capital))"

definition sharpe_of :: "(real \<Rightarrow> fl) \<Rightarrow> (fl list \<Rightarrow> fl) \<Rightarrow> (fl list \<Rightarrow> fl) \<Rightarrow> ('i, fl) series \<Rightarrow> fl" where
  "sharpe_of R mean std r =
     (if fgt (std (values_of r)) (Fin 0)
      then fmul R (fdiv R (mean (values_of r)) (std (values_of r))) (np_sqrt R (Fin 252))
      else Fin 0)"

text \<open>
  The dictionary the function returns, one field for each key; the key \<open>positions\<close> is
  the field \<open>result_positions\<close>.
\<close>

record 'i returns_result =
  strategy_pnl :: "('i, fl) series"
  strategy_pnl_net :: "('i, fl) series"
  cum_pnl :: "('i, fl) series"
  cum_pnl_net :: "('i, fl) series"
  daily_return :: "('i, fl) series"
  daily_return_net :: "('i, fl) series"
  cum_returns :: "('i, fl) series"
  cum_returns_net :: "('i, fl) series"
  sharpe :: fl
  sharpe_net :: fl
  result_positions :: "('i, fl) series"

definition calculate_returns ::
    "(real \<Rightarrow> fl) \<Rightarrow> (fl list \<Rightarrow> fl) \<Rightarrow> (fl list \<Rightarrow> fl)
     \<Rightarrow> ('i, fl) series \<Rightarrow> ('i, fl) series \<Rightarrow> ('i, fl) series \<Rightarrow> ('i, fl) series \<Rightarrow> fl
     \<Rightarrow> ('i, fl) series option \<Rightarrow> 'i returns_result" where
  "calculate_returns R mean std px py positions betas tc alphas =
     (let pnl = sbin (fmul R) (pos_lag positions) (spread_change R px py betas alphas);
          pnl_net = sbin (fsub R) pnl (daily_costs R px py positions betas tc);
          capital = capital_shift R px py betas;
          ret = to_return R pnl capital;
          ret_net = to_return R pnl_net capital
      in \<lparr> strategy_pnl = pnl,
           strategy_pnl_net = pnl_net,
           cum_pnl = cumsum R pnl,
           cum_pnl_net = cumsum R pnl_net,
           daily_return = ret,
           daily_return_net = ret_net,
           cum_returns = smap (\<lambda>v. fsub R v (Fin 1)) (cumprod R (smap (fadd R (Fin 1)) ret)),
           cum_returns_net =
             smap (\<lambda>v. fsub R v (Fin 1)) (cumprod R (smap (fadd R (Fin 1)) ret_net)),
           sharpe = sharpe_of R mean std ret,
           sharpe_net = sharpe_of R mean std ret_net,
           result_positions = positions \<rparr>)"

section \<open>fit_rolling_params\<close>

text \<open>
  Python slices: \<open>py_slice xs a b\<close> is \<open>xs[a:b]\<close> and \<open>py_slice_from xs a\<close> is \<open>xs[a:]\<close>,
  for integers of either sign; a negative bound counts from the end, and a bound out of
  range is clipped.  \<open>iloc[a:b]\<close> of a series and the slice of an index are such slices.
\<close>

definition py_bound :: "nat \<Rightarrow> int \<Rightarrow> nat" where
  "py_bound n a = (if a < 0 then nat (max 0 (a + int n)) else min (nat a) n)"

definition py_slice :: "'a list \<Rightarrow> int \<Rightarrow> int \<Rightarrow> 'a list" where
  "py_slice xs a b =
     take (py_bound (length xs) b - py_bound (length xs) a) (drop (py_bound (length xs) a) xs)"

definition py_slice_from :: "'a list \<Rightarrow> int \<Rightarrow> 'a list" where
  "py_slice_from xs a = drop (py_bound (length xs) a) xs"

text \<open>
  The regression and the cointegration test belong to the library and are parameters.
  \<open>ols X Y\<close> stands for \<open>sm.OLS(X, sm.add_constant(Y)).fit()\<close> followed by the unpacking
  \<open>alpha, beta = reg.params\<close>: the two parameters, or the exception raised.  \<open>coint X Y\<close>
  stands for \<open>coint(X, Y)\<close> followed by the unpacking of its p-value: the p-value, or the
  exception raised, an instance of \<open>Exception\<close>.

  \<open>frp_estimate\<close> is the body of the loop on the two slices, up to the five values it
  appends: an exception of the regression leaves the function, an exception of the test
  is caught and the p-value is 1.  \<open>frp_loop\<close> is the loop over the values of \<open>i\<close>.
\<close>

type_synonym ols_fun = "fl list \<Rightarrow> fl list \<Rightarrow> error + (fl \<times> fl)"
type_synonym coint_fun = "fl list \<Rightarrow> fl list \<Rightarrow> error + fl"
type_synonym estimate = "fl \<times> fl \<times> fl \<times> fl \<times> fl"
type_synonym frp_acc = "fl list \<times> fl list \<times> fl list \<times> fl list \<times> fl list"

definition frp_estimate ::
    "(real \<Rightarrow> fl) \<Rightarrow> ols_fun \<Rightarrow> coint_fun \<Rightarrow> (fl list \<Rightarrow> fl) \<Rightarrow> (fl list \<Rightarrow> fl)
     \<Rightarrow> ('i, fl) series \<Rightarrow> ('i, fl) series \<Rightarrow> error + estimate" where
  "frp_estimate R ols coint mean std X Y =
     (case ols (values_of X) (values_of Y) of
        Inl e \<Rightarrow> Inl e
      | Inr (alpha, beta) \<Rightarrow>
          (let spread = sbin (fsub R) X (smap (\<lambda>y. fadd R alpha (fmul R beta y)) Y);
               pval = (case coint (values_of X) (values_of Y) of
                         Inl e \<Rightarrow> Fin 1
                       | Inr p \<Rightarrow> p)
           in Inr (alpha, beta, mean (values_of spread), std (values_of spread), pval)))"

definition frp_append :: "frp_acc \<Rightarrow> estimate \<Rightarrow> frp_acc" where
  "frp_append acc v =
     (case acc of (alphas, betas, means, stds, pvals) \<Rightarrow>
        (case v of (alpha, beta, m, sd, pval) \<Rightarrow>
           (alphas @ [alpha], betas @ [beta], means @ [m], stds @ [sd], pvals @ [pval])))"

fun frp_loop ::
    "(real \<Rightarrow> fl) \<Rightarrow> ols_fun \<Rightarrow> coint_fun \<Rightarrow> (fl list \<Rightarrow> fl) \<Rightarrow> (fl list \<Rightarrow> fl)
     \<Rightarrow> ('i, fl) series \<Rightarrow> ('i, fl) series \<Rightarrow> int \<Rightarrow> int list \<Rightarrow> frp_acc \<Rightarrow> error + frp_acc" where
  "frp_loop R ols coint mean std px py window [] acc = Inr acc"
| "frp_loop R ols coint mean std px py window (i # is) acc =
     (case frp_estimate R ols coint mean std
             (py_slice px (i - window) i) (py_slice py (i - window) i) of
        Inl e \<Rightarrow> Inl e
      | Inr v \<Rightarrow> frp_loop R ols coint mean std px py window is (frp_append acc v))"

definition fit_rolling_params ::
    "(real \<Rightarrow> fl) \<Rightarrow> ols_fun \<Rightarrow> coint_fun \<Rightarrow> (fl list \<Rightarrow> fl) \<Rightarrow> (fl list \<Rightarrow> fl)
     \<Rightarrow> ('i, fl) series \<Rightarrow> ('i, fl) series \<Rightarrow> int
     \<Rightarrow> error + (('i, fl) series \<times> ('i, fl) series \<times> ('i, fl) series
                  \<times> ('i, fl) series \<times> ('i, fl) series)" where
  "fit_rolling_params R ols coint mean std px py window =
     (case frp_loop R ols coint mean std px py window
             [window .. int (length px) - 1] ([], [], [], [], []) of
        Inl e \<Rightarrow> Inl e
      | Inr (alphas, betas, means, stds, pvals) \<Rightarrow>
          (let idx = py_slice_from (index px) window in
           case pd_Series alphas idx of Inl e \<Rightarrow> Inl e | Inr a \<Rightarrow>
           case pd_Series betas idx of Inl e \<Rightarrow> Inl e | Inr b \<Rightarrow>
           case pd_Series means idx of Inl e \<Rightarrow> Inl e | Inr m \<Rightarrow>
           case pd_Series stds idx of Inl e \<Rightarrow> Inl e | Inr sd \<Rightarrow>
           case pd_Series pvals idx of Inl e \<Rightarrow> Inl e | Inr p \<Rightarrow>
           Inr (a, b, m, sd, p)))"

section \<open>Instances of the parameters\<close>

text \<open>
  Instances of the library functions, for evaluating the model on concrete series: the
  sample mean, the sample standard deviation (divisor \<open>n - 1\<close>, NaN for fewer than two
  values), the least-squares line through the points, which raises when the regressor
  takes a single value, and a test that raises on fewer than three points.  With \<open>Fin\<close>
  for the rounding the arithmetic on finite values is exact.
\<close>

definition mean_inst :: "(real \<Rightarrow> fl) \<Rightarrow> fl list \<Rightarrow> fl" where
  "mean_inst R xs = fdiv R (foldl (fadd R) (Fin 0) xs) (Fin (real (length xs)))"

definition std_inst :: "(real \<Rightarrow> fl) \<Rightarrow> fl list \<Rightarrow> fl" where
  "std_inst R xs =
     (if length xs < 2 then NaN
      else np_sqrt R
             (fdiv R
                (foldl (fadd R) (Fin 0)
                   (map (\<lambda>x. fmul R (fsub R x (mean_inst R xs)) (fsub R x (mean_inst R xs))) xs))
                (Fin (real (length xs) - 1))))"

definition ols_inst :: "(real \<Rightarrow> fl) \<Rightarrow> ols_fun" where
  "ols_inst R X Y =
     (if length (remdups Y) < 2 then Inl ValueError
      else (let mx = mean_inst R X; my = mean_inst R Y;
                sxy = foldl (fadd R) (Fin 0)
                        (map (\<lambda>(x, y). fmul R (fsub R x mx) (fsub R y my)) (zip X Y));
                syy = foldl (fadd R) (Fin 0)
                        (map (\<lambda>y. fmul R (fsub R y my) (fsub R y my)) Y);
                beta = fdiv R sxy syy
            in Inr (fsub R mx (fmul R beta my), beta)))"

definition coint_inst :: coint_fun where
  "coint_inst X Y = (if length X < 3 then Inl LibraryError else Inr (Fin (1/2)))"

section \<open>Properties of generate_positions\<close>

lemma fold_iloc_values:
  "fold (\<lambda>i. f (iloc s i)) [0 ..< length s] a = fold f (values_of s) a"
proof -
  have "fold (\<lambda>i. f (iloc s i)) [0 ..< length s] a
        = fold f (map (\<lambda>i. iloc s i) [0 ..< length s]) a"
    by (simp add: fold_map comp_def)
  also have "map (\<lambda>i. iloc s i) [0 ..< length s] = map snd (map ((!) s) [0 ..< length s])"
    by (simp add: iloc_def)
  also have "\<dots> = values_of s"
    by (simp only: map_nth values_of_def)
  finally show ?thesis .
qed

lemma gp_body_sm_step:
  "gp_body e x s z (ps, position_of st, position_of st)
   = (ps @ [position_of (sm_step e x s st z)],
      position_of (sm_step e x s st z), position_of (sm_step e x s st z))"
  by (cases st) (simp_all add: gp_body_def)

lemma fold_gp_body_trace:
  "fold (gp_body e x s) zs (ps, position_of st, position_of st)
   = (ps @ map position_of (sm_trace e x s st zs),
      position_of (last (st # sm_trace e x s st zs)),
      position_of (last (st # sm_trace e x s st zs)))"
proof (induction zs arbitrary: ps st)
  case Nil
  show ?case by simp
next
  case (Cons z zs)
  show ?case
    using Cons.IH [of "ps @ [position_of (sm_step e x s st z)]" "sm_step e x s st z"]
    by (simp add: gp_body_sm_step)
qed

lemma length_sm_trace: "length (sm_trace e x s st zs) = length zs"
  by (induction zs arbitrary: st) simp_all

lemma gp_loop_trace:
  "gp_loop zscore e x s
   = (map position_of (sm_trace e x s Flat (values_of zscore)),
      position_of (last (Flat # sm_trace e x s Flat (values_of zscore))),
      position_of (last (Flat # sm_trace e x s Flat (values_of zscore))))"
  using fold_gp_body_trace [of e x s "values_of zscore" "[]" Flat]
  by (simp add: gp_loop_def fold_iloc_values)

lemma generate_positions_trace:
  "generate_positions zscore e x s
   = Inr (zip (index zscore) (map position_of (sm_trace e x s Flat (values_of zscore))))"
  by (simp add: generate_positions_def gp_loop_trace pd_Series_def index_def length_sm_trace
      values_of_def)

text \<open>
  C1.  With \<open>entryThreshold > 0\<close>, \<open>0 \<le> exitThreshold < entryThreshold\<close> and
  \<open>stopZ > entryThreshold\<close>, \<open>generate_positions\<close> returns, over the index of the z-score
  series, the positions of the state machine of the specification started in \<open>Flat\<close>:
  the position emitted at each step is the new state of the machine.
\<close>

theorem generate_positions_state_machine:
  assumes "fgt entryThreshold (Fin 0)"
    and "fle (Fin 0) exitThreshold" and "flt exitThreshold entryThreshold"
    and "fgt stopZ entryThreshold"
  shows "generate_positions zscore entryThreshold exitThreshold stopZ
         = Inr (zip (index zscore)
             (map position_of
               (sm_trace entryThreshold exitThreshold stopZ Flat (values_of zscore))))"
  by (rule generate_positions_trace)

theorem generate_positions_state_machine_witness:
  "fgt (Fin 2) (Fin 0) \<and> fle (Fin 0) (Fin (1/2)) \<and> flt (Fin (1/2)) (Fin 2)
   \<and> fgt (Fin 3) (Fin 2)
   \<and> generate_positions
        [(0::nat, Fin 0), (1, Fin (5/2)), (2, Fin (13/5)), (3, Fin (2/5)), (4, Fin (- 1/10))]
        (Fin 2) (Fin (1/2)) (Fin 3)
      = Inr [(0, 0), (1, - 1), (2, - 1), (3, 0), (4, 0)]"
proof -
  have h1: "fgt (Fin 2) (Fin 0)" by (simp add: fgt_def)
  have h2: "fle (Fin 0) (Fin (1/2))" by simp
  have h3: "flt (Fin (1/2)) (Fin 2)" by simp
  have h4: "fgt (Fin 3) (Fin 2)" by (simp add: fgt_def)
  show ?thesis
    using generate_positions_state_machine [OF h1 h2 h3 h4,
        of "[(0::nat, Fin 0), (1, Fin (5/2)), (2, Fin (13/5)), (3, Fin (2/5)), (4, Fin (- 1/10))]"]
    by (simp add: h1 h2 h3 h4 index_def values_of_def fgt_def)
qed


subsection \<open>Shape of the output\<close>

lemma position_of_range: "position_of st \<in> {- 1, 0, 1}"
  by (cases st) simp_all

lemma index_zip_trace:
  "index (zip (index zscore) (map position_of (sm_trace e x s st (values_of zscore))))
   = index zscore"
  by (simp add: index_def values_of_def length_sm_trace)

lemma values_zip_trace:
  "values_of (zip (index zscore) (map position_of (sm_trace e x s st (values_of zscore))))
   = map position_of (sm_trace e x s st (values_of zscore))"
  by (simp add: index_def values_of_def length_sm_trace)

lemma iloc_zip_trace:
  assumes "t < length zscore"
  shows "iloc (zip (index zscore) (map position_of (sm_trace e x s st (values_of zscore)))) t
         = position_of (sm_trace e x s st (values_of zscore) ! t)"
  using assms by (simp add: iloc_def index_def values_of_def length_sm_trace)

text \<open>
  C9.  Whatever the thresholds, \<open>generate_positions\<close> returns a series over the index of the
  z-score series, hence of the same length, and each of its values is -1, 0 or 1.
\<close>

theorem generate_positions_range:
  "\<exists>ps. generate_positions zscore entry_threshold exit_threshold stop_z = Inr ps
      \<and> index ps = index zscore \<and> length ps = length zscore
      \<and> (\<forall>p \<in> set (values_of ps). p \<in> {- 1, 0, 1})"
proof -
  let ?ps = "zip (index zscore) (map position_of
      (sm_trace entry_threshold exit_threshold stop_z Flat (values_of zscore)))"
  have "generate_positions zscore entry_threshold exit_threshold stop_z = Inr ?ps"
    by (rule generate_positions_trace)
  moreover have "index ?ps = index zscore"
    by (rule index_zip_trace)
  moreover have "length ?ps = length zscore"
    by (simp add: index_def values_of_def length_sm_trace)
  moreover have "\<forall>p \<in> set (values_of ?ps). p \<in> {- 1, 0, 1}"
    unfolding values_zip_trace using position_of_range by auto
  ultimately show ?thesis by blast
qed

theorem generate_positions_range_witness:
  "\<exists>ps. generate_positions [(10::nat, Fin 0), (11, Fin (5/2)), (12, NaN), (13, Fin (- 4))]
          (Fin 2) (Fin (1/2)) (Fin 3) = Inr ps
      \<and> index ps = [10, 11, 12, 13] \<and> length ps = 4
      \<and> set (values_of ps) \<subseteq> {- 1, 0, 1}"
  using generate_positions_range
    [of "[(10::nat, Fin 0), (11, Fin (5/2)), (12, NaN), (13, Fin (- 4))]"
        "Fin 2" "Fin (1/2)" "Fin 3"]
  by (auto simp: index_def)

subsection \<open>Consecutive positions\<close>

lemma sm_trace_nth:
  "t < length zs \<Longrightarrow>
   sm_trace e x s st zs ! t = sm_step e x s ((st # sm_trace e x s st zs) ! t) (zs ! t)"
proof (induction zs arbitrary: st t)
  case Nil
  then show ?case by simp
next
  case (Cons z zs)
  show ?case
  proof (cases t)
    case 0
    then show ?thesis by simp
  next
    case (Suc k)
    with Cons.prems have "k < length zs" by simp
    from Cons.IH [OF this, of "sm_step e x s st z"] Suc show ?thesis by simp
  qed
qed

lemma units_traded_trace:
  assumes "0 < t" and "t < length ps"
  shows "iloc (units_traded R (as_float ps)) t
         = nan_to_zero (fabs (R (real_of_int (iloc ps t - iloc ps (t - 1)))))"
proof -
  let ?s = "as_float ps"
  have len: "length ?s = length ps"
    by (simp add: as_float_def smap_def)
  have cell: "iloc ?s k = Fin (real_of_int (iloc ps k))" if "k < length ps" for k
    using that by (simp add: as_float_def smap_def iloc_def case_prod_beta)
  have sh: "length (shift1 ?s) = length ps"
    using len by (cases ps) (simp_all add: shift1_def index_def values_of_def as_float_def smap_def)
  have "t < length (NaN # butlast (values_of ?s))"
    using assms len by (simp add: values_of_def)
  then have "iloc (shift1 ?s) t = (NaN # butlast (values_of ?s)) ! t"
    using assms len by (simp add: shift1_def iloc_def index_def)
  also have "\<dots> = iloc ?s (t - 1)"
    using assms len by (cases t) (simp_all add: nth_butlast values_of_def iloc_def)
  finally have prev: "iloc (shift1 ?s) t = Fin (real_of_int (iloc ps (t - 1)))"
    using cell [of "t - 1"] assms by simp
  have "iloc (diff R ?s) t = fsub R (iloc ?s t) (iloc (shift1 ?s) t)"
    using assms len sh by (simp add: diff_def sbin_def iloc_def case_prod_beta)
  then have "iloc (diff R ?s) t = R (real_of_int (iloc ps t - iloc ps (t - 1)))"
    using prev cell [OF assms(2)] by simp
  moreover have "t < length (diff R ?s)"
    using assms len sh by (simp add: diff_def sbin_def)
  ultimately show ?thesis
    by (simp add: units_traded_def fillna0_def smap_def iloc_def case_prod_beta)
qed

lemma sm_step_change: "\<bar>position_of (sm_step e x s st z) - position_of st\<bar> \<le> 1"
  by (cases st) simp_all

lemma sm_trace_change:
  assumes "0 < t" and "t < length zs"
  shows "\<bar>position_of (sm_trace e x s st zs ! t) - position_of (sm_trace e x s st zs ! (t - 1))\<bar>
         \<le> 1"
proof -
  from assms obtain k where k: "t = Suc k" by (cases t) auto
  have "sm_trace e x s st zs ! t = sm_step e x s (sm_trace e x s st zs ! k) (zs ! t)"
    using sm_trace_nth [OF assms(2), of e x s st] k by simp
  then show ?thesis using k sm_step_change by simp
qed

text \<open>
  C10.  In the series returned by \<open>generate_positions\<close>, whatever the thresholds, two
  consecutive positions differ by at most 1: the position never goes from 1 to -1 or from
  -1 to 1 in one step, so the change between consecutive positions is never 2.  The
  turnover \<open>units_traded\<close> that \<open>calculate_returns\<close> computes on these positions is then 0
  or 1 (with a rounding that leaves -1, 0 and 1 as they are).
\<close>

theorem generate_positions_no_reversal:
  assumes "generate_positions zscore entry_threshold exit_threshold stop_z = Inr ps"
    and "0 < t" and "t < length ps"
  shows "\<bar>iloc ps t - iloc ps (t - 1)\<bar> \<le> 1
         \<and> \<bar>iloc ps t - iloc ps (t - 1)\<bar> \<noteq> 2
         \<and> \<not> (iloc ps (t - 1) = 1 \<and> iloc ps t = - 1)
         \<and> \<not> (iloc ps (t - 1) = - 1 \<and> iloc ps t = 1)
         \<and> (R (- 1) = Fin (- 1) \<and> R 0 = Fin 0 \<and> R 1 = Fin 1 \<longrightarrow>
              iloc (units_traded R (as_float ps)) t \<in> {Fin 0, Fin 1})"
proof -
  let ?tr = "sm_trace entry_threshold exit_threshold stop_z Flat (values_of zscore)"
  have ps: "ps = zip (index zscore) (map position_of ?tr)"
    using assms(1) by (simp add: generate_positions_trace)
  have len: "length ps = length zscore"
    unfolding ps by (simp add: index_def values_of_def length_sm_trace)
  have t: "t < length zscore" and t1: "t - 1 < length zscore"
    using assms(3) len by simp_all
  have a: "iloc ps t = position_of (?tr ! t)"
    unfolding ps by (rule iloc_zip_trace [OF t])
  have b: "iloc ps (t - 1) = position_of (?tr ! (t - 1))"
    unfolding ps by (rule iloc_zip_trace [OF t1])
  have "t < length (values_of zscore)"
    using t by (simp add: values_of_def)
  from sm_trace_change [OF assms(2) this, of entry_threshold exit_threshold stop_z Flat]
  have d: "\<bar>iloc ps t - iloc ps (t - 1)\<bar> \<le> 1"
    unfolding a b .
  have "iloc (units_traded R (as_float ps)) t \<in> {Fin 0, Fin 1}"
    if r: "R (- 1) = Fin (- 1) \<and> R 0 = Fin 0 \<and> R 1 = Fin 1"
  proof -
    define k where "k = iloc ps t - iloc ps (t - 1)"
    have "iloc (units_traded R (as_float ps)) t = nan_to_zero (fabs (R (real_of_int k)))"
      unfolding k_def by (rule units_traded_trace [OF assms(2,3)])
    moreover have "k = - 1 \<or> k = 0 \<or> k = 1"
      using d unfolding k_def by auto
    ultimately show ?thesis
      using r by (auto simp: nan_to_zero_def)
  qed
  with d show ?thesis by auto
qed

theorem generate_positions_no_reversal_witness:
  "generate_positions [(0::nat, Fin (- 5/2)), (1, Fin 4), (2, Fin 4)]
       (Fin 2) (Fin (1/2)) (Fin 3) = Inr [(0, 1), (1, 1), (2, 1)]
   \<and> \<bar>iloc [(0::nat, 1::int), (1, 1), (2, 1)] 1 - iloc [(0::nat, 1::int), (1, 1), (2, 1)] 0\<bar> \<le> 1"
proof -
  have g: "generate_positions [(0::nat, Fin (- 5/2)), (1, Fin 4), (2, Fin 4)]
       (Fin 2) (Fin (1/2)) (Fin 3) = Inr [(0, 1), (1, 1), (2, 1)]"
    by (simp add: generate_positions_trace index_def values_of_def fgt_def)
  show ?thesis
    using g generate_positions_no_reversal [OF g, where t = 1 and R = Fin] by simp
qed


subsection \<open>Values that are not finite\<close>






section \<open>Properties of calculate_returns\<close>

subsection \<open>Rows of the series operations\<close>

lemma length_smap: "length (smap f s) = length s"
  by (simp add: smap_def)

lemma index_smap: "index (smap f s) = index s"
  by (simp add: smap_def index_def case_prod_beta comp_def)

lemma iloc_smap: "t < length s \<Longrightarrow> iloc (smap f s) t = f (iloc s t)"
  by (simp add: smap_def iloc_def case_prod_beta)

lemma length_sbin: "length (sbin f a b) = min (length a) (length b)"
  by (simp add: sbin_def)

lemma iloc_sbin:
  "t < length a \<Longrightarrow> t < length b \<Longrightarrow> iloc (sbin f a b) t = f (iloc a t) (iloc b t)"
  by (simp add: sbin_def iloc_def case_prod_beta)

lemma length_index: "length (index s) = length s"
  by (simp add: index_def)

lemma length_values_of: "length (values_of s) = length s"
  by (simp add: values_of_def)

lemma length_shift1: "length (shift1 s) = length s"
  by (cases s) (simp_all add: shift1_def index_def values_of_def)

lemma iloc_shift1:
  assumes "t < length s"
  shows "iloc (shift1 s) t = (if t = 0 then NaN else iloc s (t - 1))"
proof -
  have "t < length (NaN # butlast (values_of s))"
    using assms by (simp add: values_of_def)
  then have "iloc (shift1 s) t = (NaN # butlast (values_of s)) ! t"
    using assms by (simp add: shift1_def iloc_def index_def)
  also have "\<dots> = (if t = 0 then NaN else iloc s (t - 1))"
    using assms by (cases t) (simp_all add: nth_butlast values_of_def iloc_def)
  finally show ?thesis .
qed

lemma length_diff: "length (diff R s) = length s"
  by (simp add: diff_def length_sbin length_shift1)

lemma iloc_diff:
  assumes "t < length s"
  shows "iloc (diff R s) t = fsub R (iloc s t) (if t = 0 then NaN else iloc s (t - 1))"
  using assms by (simp add: diff_def iloc_sbin length_shift1 iloc_shift1)

lemma length_fillna0: "length (fillna0 s) = length s"
  by (simp add: fillna0_def length_smap)

lemma iloc_fillna0: "t < length s \<Longrightarrow> iloc (fillna0 s) t = nan_to_zero (iloc s t)"
  by (simp add: fillna0_def iloc_smap)



lemma length_reindex: "length (reindex s idx) = length idx"
  by (simp add: reindex_def)

lemma length_alphas_series: "length (alphas_series px alphas) = length px"
  by (cases alphas) (simp_all add: alphas_series_def const_series_def length_reindex length_index)

lemma length_betas_series: "length (betas_series px betas) = length px"
  by (simp add: betas_series_def length_reindex length_index)

lemma length_spread_of:
  "length (spread_of R px py betas alphas) = min (length px) (length py)"
  by (simp add: spread_of_def length_sbin length_alphas_series length_betas_series)

lemma length_spread_change:
  "length (spread_change R px py betas alphas) = min (length px) (length py)"
  by (simp add: spread_change_def length_fillna0 length_diff length_spread_of)

lemma length_pos_lag: "length (pos_lag positions) = length positions"
  by (simp add: pos_lag_def length_fillna0 length_shift1)

lemma iloc_pos_lag:
  "t < length positions \<Longrightarrow>
   iloc (pos_lag positions) t = nan_to_zero (if t = 0 then NaN else iloc positions (t - 1))"
  by (simp add: pos_lag_def iloc_fillna0 length_shift1 iloc_shift1)

lemma iloc_spread_change:
  assumes "t < length px" and "t < length py"
  shows "iloc (spread_change R px py betas alphas) t
         = nan_to_zero (fsub R (iloc (spread_of R px py betas alphas) t)
             (if t = 0 then NaN else iloc (spread_of R px py betas alphas) (t - 1)))"
  using assms by (simp add: spread_change_def iloc_fillna0 length_diff iloc_diff length_spread_of)

lemma strategy_pnl_eq:
  "strategy_pnl (calculate_returns R mean std px py positions betas tc alphas)
   = sbin (fmul R) (pos_lag positions) (spread_change R px py betas alphas)"
  by (simp add: calculate_returns_def Let_def)

lemma iloc_strategy_pnl:
  assumes "t < length px" and "t < length py" and "t < length positions"
  shows "iloc (strategy_pnl (calculate_returns R mean std px py positions betas tc alphas)) t
         = fmul R (nan_to_zero (if t = 0 then NaN else iloc positions (t - 1)))
             (nan_to_zero (fsub R (iloc (spread_of R px py betas alphas) t)
                (if t = 0 then NaN else iloc (spread_of R px py betas alphas) (t - 1))))"
  using assms
  by (simp add: strategy_pnl_eq iloc_sbin length_pos_lag length_spread_change
      iloc_pos_lag iloc_spread_change)

lemma same_index_length: "index a = index b \<Longrightarrow> length a = length b"
  by (metis length_index)


subsection \<open>Gross profit and loss\<close>

lemmas series_eval =
  calculate_returns_def Let_def pos_lag_def spread_change_def spread_of_def alphas_series_def
  betas_series_def gross_notional_def units_traded_def daily_costs_def capital_shift_def
  to_return_def sharpe_of_def diff_def shift1_def fillna0_def replace_inf0_def smap_def sbin_def
  reindex_def const_series_def index_def values_of_def iloc_def nan_to_zero_def inf_to_zero_def
  cumsum_def cumprod_def

text \<open>
  C5, as amended.  Over aligned series, for every period \<open>t \<ge> 1\<close> the gross profit and loss
  is the product of \<open>p\<close> and \<open>d\<close>, where \<open>p\<close> is the position at \<open>t - 1\<close> and \<open>d\<close> the
  difference \<open>spread[t] - spread[t - 1]\<close> of \<open>spread = px - (alphas + betas * py)\<close>, each
  replaced by zero when it is NaN; it is the product of the position at \<open>t - 1\<close> and the
  difference itself whenever neither is NaN.  In the first period the lagged position and
  the spread change are zero, and so is the gross profit and loss (the product of two
  zeros, with a rounding that rounds zero to zero).
\<close>

theorem calculate_returns_pnl:
  assumes "index py = index px" and "index positions = index px" and "t < length px"
  shows "(0 < t \<longrightarrow>
            iloc (strategy_pnl (calculate_returns R mean std px py positions betas tc alphas)) t
            = fmul R (nan_to_zero (iloc positions (t - 1)))
                (nan_to_zero (fsub R (iloc (spread_of R px py betas alphas) t)
                   (iloc (spread_of R px py betas alphas) (t - 1)))))
       \<and> (0 < t \<and> iloc positions (t - 1) \<noteq> NaN
            \<and> fsub R (iloc (spread_of R px py betas alphas) t)
                  (iloc (spread_of R px py betas alphas) (t - 1)) \<noteq> NaN \<longrightarrow>
            iloc (strategy_pnl (calculate_returns R mean std px py positions betas tc alphas)) t
            = fmul R (iloc positions (t - 1))
                (fsub R (iloc (spread_of R px py betas alphas) t)
                   (iloc (spread_of R px py betas alphas) (t - 1))))
       \<and> (t = 0 \<longrightarrow>
            iloc (pos_lag positions) t = Fin 0
            \<and> iloc (spread_change R px py betas alphas) t = Fin 0
            \<and> (R 0 = Fin 0 \<longrightarrow>
                 iloc (strategy_pnl
                         (calculate_returns R mean std px py positions betas tc alphas)) t
                 = Fin 0))"
proof -
  have lpy: "t < length py" and lpos: "t < length positions"
    using assms same_index_length [OF assms(1)] same_index_length [OF assms(2)] by simp_all
  note pnl = iloc_strategy_pnl [OF assms(3) lpy lpos, of R mean std betas tc alphas]
  have first: "t = 0 \<Longrightarrow> iloc (pos_lag positions) t = Fin 0
      \<and> iloc (spread_change R px py betas alphas) t = Fin 0"
    using iloc_pos_lag [OF lpos] iloc_spread_change [OF assms(3) lpy, of R betas alphas]
    by (cases "iloc (spread_of R px py betas alphas) 0") (simp_all add: nan_to_zero_def)
  have first_pnl: "t = 0 \<Longrightarrow> R 0 = Fin 0 \<Longrightarrow>
      iloc (strategy_pnl (calculate_returns R mean std px py positions betas tc alphas)) t = Fin 0"
    using pnl
    by (cases "iloc (spread_of R px py betas alphas) 0") (simp_all add: nan_to_zero_def)
  show ?thesis
    using pnl first first_pnl by (auto simp: nan_to_zero_def)
qed

theorem calculate_returns_pnl_witness:
  "index [(0::int, Fin 50), (1, Fin 50)] = index [(0::int, Fin 100), (1, Fin 101)]
   \<and> index [(0::int, Fin 1), (1, Fin 0)] = index [(0::int, Fin 100), (1, Fin 101)]
   \<and> (1::nat) < length [(0::int, Fin 100), (1, Fin 101)]
   \<and> iloc (strategy_pnl (calculate_returns Fin (mean_inst Fin) (std_inst Fin)
             [(0::int, Fin 100), (1, Fin 101)] [(0, Fin 50), (1, Fin 50)]
             [(0, Fin 1), (1, Fin 0)] [(0, Fin 1), (1, Fin 1)] (Fin (1/1000))
             (Some [(0, Fin 0), (1, Fin 0)]))) 1
     = Fin 1"
proof -
  have h1: "index [(0::int, Fin 50), (1, Fin 50)] = index [(0::int, Fin 100), (1, Fin 101)]"
    by (simp add: index_def)
  have h2: "index [(0::int, Fin 1), (1, Fin 0)] = index [(0::int, Fin 100), (1, Fin 101)]"
    by (simp add: index_def)
  have h3: "(1::nat) < length [(0::int, Fin 100), (1, Fin 101)]"
    by simp
  have sp: "spread_of Fin [(0::int, Fin 100), (1, Fin 101)] [(0, Fin 50), (1, Fin 50)]
              [(0, Fin 1), (1, Fin 1)] (Some [(0, Fin 0), (1, Fin 0)])
            = [(0, Fin 50), (1, Fin 51)]"
    by (simp add: spread_of_def alphas_series_def betas_series_def reindex_def sbin_def index_def)
  show ?thesis
    using calculate_returns_pnl [OF h1 h2 h3, where R = Fin and mean = "mean_inst Fin"
        and std = "std_inst Fin" and betas = "[(0, Fin 1), (1, Fin 1)]"
        and tc = "Fin (1/1000)" and alphas = "Some [(0, Fin 0), (1, Fin 0)]"]
    by (simp add: h1 h2 sp iloc_def nan_to_zero_def)
qed

text \<open>
  The claim as it is worded fails where a price is missing: with \<open>px = [NaN, 1]\<close>,
  \<open>py = [0, 0]\<close>, \<open>betas = [0, 0]\<close> and \<open>positions = [1, 0]\<close> the spread is \<open>[NaN, 1]\<close>, the
  spread change of period 1 is NaN replaced by 0, and the gross profit and loss of period 1
  is 0, while the position at 0 times \<open>spread[1] - spread[0]\<close> is NaN.
\<close>

theorem calculate_returns_pnl_counterexample:
  "iloc (strategy_pnl (calculate_returns Fin (mean_inst Fin) (std_inst Fin)
           [(0::int, NaN), (1, Fin 1)] [(0, Fin 0), (1, Fin 0)]
           [(0, Fin 1), (1, Fin 0)] [(0, Fin 0), (1, Fin 0)] (Fin 0) None)) 1
   = Fin 0
   \<and> fmul Fin (iloc [(0::int, Fin 1), (1, Fin 0)] 0)
       (fsub Fin
          (iloc (spread_of Fin [(0::int, NaN), (1, Fin 1)] [(0, Fin 0), (1, Fin 0)]
                   [(0, Fin 0), (1, Fin 0)] None) 1)
          (iloc (spread_of Fin [(0::int, NaN), (1, Fin 1)] [(0, Fin 0), (1, Fin 0)]
                   [(0, Fin 0), (1, Fin 0)] None) 0))
     = NaN"
  by (simp add: series_eval)

subsection \<open>Percentage returns\<close>















subsection \<open>Sharpe ratio\<close>

text \<open>
  C8.  When the standard deviation of the gross returns is greater than 0 the gross Sharpe
  ratio is \<open>mean / std * sqrt(252)\<close> of the gross returns, and when it is 0 the gross Sharpe
  ratio is exactly 0; the same holds of the net Sharpe ratio and the net returns.
\<close>

theorem calculate_returns_sharpe:
  "(fgt (std (values_of (daily_return
            (calculate_returns R mean std px py positions betas tc alphas)))) (Fin 0) \<longrightarrow>
      sharpe (calculate_returns R mean std px py positions betas tc alphas)
      = fmul R
          (fdiv R
             (mean (values_of (daily_return
                (calculate_returns R mean std px py positions betas tc alphas))))
             (std (values_of (daily_return
                (calculate_returns R mean std px py positions betas tc alphas)))))
          (np_sqrt R (Fin 252)))
   \<and> (std (values_of (daily_return
            (calculate_returns R mean std px py positions betas tc alphas))) = Fin 0 \<longrightarrow>
      sharpe (calculate_returns R mean std px py positions betas tc alphas) = Fin 0)
   \<and> (fgt (std (values_of (daily_return_net
            (calculate_returns R mean std px py positions betas tc alphas)))) (Fin 0) \<longrightarrow>
      sharpe_net (calculate_returns R mean std px py positions betas tc alphas)
      = fmul R
          (fdiv R
             (mean (values_of (daily_return_net
                (calculate_returns R mean std px py positions betas tc alphas))))
             (std (values_of (daily_return_net
                (calculate_returns R mean std px py positions betas tc alphas)))))
          (np_sqrt R (Fin 252)))
   \<and> (std (values_of (daily_return_net
            (calculate_returns R mean std px py positions betas tc alphas))) = Fin 0 \<longrightarrow>
      sharpe_net (calculate_returns R mean std px py positions betas tc alphas) = Fin 0)"
  by (simp add: calculate_returns_def Let_def sharpe_of_def fgt_def)

text \<open>
  On the prices 1, 2, 6 held long the gross returns are 0, 1, 2, of mean 1 and standard
  deviation 1; held flat the returns are 0, 0, 0, of standard deviation 0.
\<close>

lemma returns_long_example:
  "values_of (daily_return (calculate_returns Fin (mean_inst Fin) (std_inst Fin)
      [(0::int, Fin 1), (1, Fin 2), (2, Fin 6)] [(0, Fin 0), (1, Fin 0), (2, Fin 0)]
      [(0, Fin 1), (1, Fin 1), (2, Fin 1)] [(0, Fin 0), (1, Fin 0), (2, Fin 0)] (Fin 0) None))
   = [Fin 0, Fin 1, Fin 2]"
  by (simp add: series_eval is_finite_def)

lemma returns_flat_example:
  "values_of (daily_return (calculate_returns Fin (mean_inst Fin) (std_inst Fin)
      [(0::int, Fin 1), (1, Fin 2), (2, Fin 6)] [(0, Fin 0), (1, Fin 0), (2, Fin 0)]
      [(0, Fin 0), (1, Fin 0), (2, Fin 0)] [(0, Fin 0), (1, Fin 0), (2, Fin 0)] (Fin 0) None))
   = [Fin 0, Fin 0, Fin 0]"
  by (simp add: series_eval is_finite_def)

lemma mean_std_examples:
  "mean_inst Fin [Fin 0, Fin 1, Fin 2] = Fin 1"
  "std_inst Fin [Fin 0, Fin 1, Fin 2] = Fin 1"
  "std_inst Fin [Fin 0, Fin 0, Fin 0] = Fin 0"
  by (simp_all add: mean_inst_def std_inst_def)

theorem calculate_returns_sharpe_witness:
  "fgt (std_inst Fin (values_of (daily_return (calculate_returns Fin (mean_inst Fin) (std_inst Fin)
      [(0::int, Fin 1), (1, Fin 2), (2, Fin 6)] [(0, Fin 0), (1, Fin 0), (2, Fin 0)]
      [(0, Fin 1), (1, Fin 1), (2, Fin 1)] [(0, Fin 0), (1, Fin 0), (2, Fin 0)] (Fin 0) None))))
     (Fin 0)
   \<and> sharpe (calculate_returns Fin (mean_inst Fin) (std_inst Fin)
      [(0::int, Fin 1), (1, Fin 2), (2, Fin 6)] [(0, Fin 0), (1, Fin 0), (2, Fin 0)]
      [(0, Fin 1), (1, Fin 1), (2, Fin 1)] [(0, Fin 0), (1, Fin 0), (2, Fin 0)] (Fin 0) None)
     = Fin (sqrt 252)
   \<and> std_inst Fin (values_of (daily_return (calculate_returns Fin (mean_inst Fin) (std_inst Fin)
      [(0::int, Fin 1), (1, Fin 2), (2, Fin 6)] [(0, Fin 0), (1, Fin 0), (2, Fin 0)]
      [(0, Fin 0), (1, Fin 0), (2, Fin 0)] [(0, Fin 0), (1, Fin 0), (2, Fin 0)] (Fin 0) None)))
     = Fin 0
   \<and> sharpe (calculate_returns Fin (mean_inst Fin) (std_inst Fin)
      [(0::int, Fin 1), (1, Fin 2), (2, Fin 6)] [(0, Fin 0), (1, Fin 0), (2, Fin 0)]
      [(0, Fin 0), (1, Fin 0), (2, Fin 0)] [(0, Fin 0), (1, Fin 0), (2, Fin 0)] (Fin 0) None)
     = Fin 0"
  using calculate_returns_sharpe [where std = "std_inst Fin" and R = Fin
      and mean = "mean_inst Fin" and px = "[(0::int, Fin 1), (1, Fin 2), (2, Fin 6)]"
      and py = "[(0, Fin 0), (1, Fin 0), (2, Fin 0)]"
      and positions = "[(0, Fin 1), (1, Fin 1), (2, Fin 1)]"
      and betas = "[(0, Fin 0), (1, Fin 0), (2, Fin 0)]" and tc = "Fin 0" and alphas = None]
    calculate_returns_sharpe [where std = "std_inst Fin" and R = Fin
      and mean = "mean_inst Fin" and px = "[(0::int, Fin 1), (1, Fin 2), (2, Fin 6)]"
      and py = "[(0, Fin 0), (1, Fin 0), (2, Fin 0)]"
      and positions = "[(0, Fin 0), (1, Fin 0), (2, Fin 0)]"
      and betas = "[(0, Fin 0), (1, Fin 0), (2, Fin 0)]" and tc = "Fin 0" and alphas = None]
  by (simp add: returns_long_example returns_flat_example mean_std_examples fgt_def)


section \<open>Properties of fit_rolling_params\<close>

subsection \<open>The loop\<close>









lemma zip_rows:
  assumes "length xs = length idx" and "k < length idx"
  shows "index (zip idx xs) = idx" and "length (zip idx xs) = length idx"
    and "iloc (zip idx xs) k = xs ! k"
  using assms by (simp_all add: index_def iloc_def)



subsection \<open>Shape of the output and the rows behind each estimate\<close>











text \<open>
  A negative window makes the function raise whatever the regression does: when the loop
  ends, it has more estimates than the index slice \<open>idx[window:]\<close> has labels.
\<close>

lemma frp_loop_length:
  "frp_loop R ols coint mean std px py window is acc = Inr acc'
   \<Longrightarrow> length (fst acc') = length (fst acc) + length is"
proof (induction "is" arbitrary: acc)
  case Nil
  then show ?case by simp
next
  case (Cons i "is")
  from Cons.prems obtain v where
    v: "frp_estimate R ols coint mean std (py_slice px (i - window) i)
          (py_slice py (i - window) i) = Inr v"
    and rest: "frp_loop R ols coint mean std px py window is (frp_append acc v) = Inr acc'"
    by (auto split: sum.splits)
  have "length (fst (frp_append acc v)) = Suc (length (fst acc))"
    by (cases acc, cases v) (simp add: frp_append_def)
  with Cons.IH [OF rest] show ?case by simp
qed

lemma fit_rolling_params_negative_window:
  assumes "window < 0"
  shows "\<exists>e. fit_rolling_params R ols coint mean std px py window = Inl e"
proof (cases "frp_loop R ols coint mean std px py window
    [window .. int (length px) - 1] ([], [], [], [], [])")
  case (Inl e)
  then show ?thesis by (simp add: fit_rolling_params_def)
next
  case (Inr acc)
  obtain as bs ms ss ps where acc: "acc = (as, bs, ms, ss, ps)"
    by (cases acc) auto
  have "length as = length [window .. int (length px) - 1]"
    using frp_loop_length [OF Inr] acc by simp
  then have "length px < length as"
    using assms by simp
  moreover have "length (py_slice_from (index px) window) \<le> length px"
    by (simp add: py_slice_from_def index_def)
  ultimately have "length as \<noteq> length (py_slice_from (index px) window)"
    by linarith
  then show ?thesis
    by (simp add: fit_rolling_params_def Inr acc pd_Series_def Let_def)
qed


subsection \<open>A cointegration test that raises\<close>






section \<open>Inputs outside the contract\<close>

lemma fit_rolling_params_window_too_long:
  assumes "int (length px) \<le> window"
  shows "fit_rolling_params R ols coint mean std px py window = Inr ([], [], [], [], [])"
proof -
  have "[window .. int (length px) - 1] = []"
    using assms by simp
  moreover have "py_slice_from (index px) window = []"
    using assms by (simp add: py_slice_from_def py_bound_def index_def)
  ultimately show ?thesis
    by (simp add: fit_rolling_params_def pd_Series_def)
qed

text \<open>
  C3, as amended.  The operations do not validate their inputs.  With an exit threshold
  that is not below the entry threshold, \<open>generate_positions\<close> raises nothing and returns
  the positions of the state machine as for any other thresholds; with a window that is
  not below the length of the series, \<open>fit_rolling_params\<close> raises nothing and returns
  five empty series.
\<close>

theorem no_validation_error:
  "(fle entry_threshold exit_threshold \<longrightarrow>
      generate_positions zscore entry_threshold exit_threshold stop_z
      = Inr (zip (index zscore)
          (map position_of
            (sm_trace entry_threshold exit_threshold stop_z Flat (values_of zscore)))))
   \<and> (int (length px) \<le> window \<longrightarrow>
      fit_rolling_params R ols coint mean std px py window = Inr ([], [], [], [], []))"
  using generate_positions_trace [of zscore entry_threshold exit_threshold stop_z]
    fit_rolling_params_window_too_long [of px window R ols coint mean std py]
  by blast

theorem no_validation_error_witness:
  "fle (Fin 1) (Fin 2)
   \<and> generate_positions [(0::int, Fin 3), (1, Fin (3/2)), (2, Fin 0)] (Fin 1) (Fin 2) (Fin 3)
     = Inr [(0, - 1), (1, 0), (2, 0)]
   \<and> int (length [(10::int, Fin 1), (11, Fin 2)]) \<le> 2
   \<and> fit_rolling_params Fin (ols_inst Fin) coint_inst (mean_inst Fin) (std_inst Fin)
       [(10::int, Fin 1), (11, Fin 2)] [(10, Fin 1), (11, Fin 3)] 2
     = Inr ([], [], [], [], [])"
  using no_validation_error [where entry_threshold = "Fin 1" and exit_threshold = "Fin 2"
      and stop_z = "Fin 3" and zscore = "[(0::int, Fin 3), (1, Fin (3/2)), (2, Fin 0)]"
      and px = "[(10::int, Fin 1), (11, Fin 2)]" and window = 2 and R = Fin
      and ols = "ols_inst Fin" and coint = coint_inst and mean = "mean_inst Fin"
      and std = "std_inst Fin" and py = "[(10, Fin 1), (11, Fin 3)]"]
  by (simp add: index_def values_of_def fgt_def)

text \<open>
  The claim as it is worded fails: with the entry threshold 1 and the exit threshold 2
  (not below the entry threshold) \<open>generate_positions\<close> returns positions and no error.
\<close>

theorem no_validation_error_counterexample:
  "fle (Fin 1) (Fin 2)
   \<and> generate_positions [(0::int, Fin 3), (1, Fin (3/2)), (2, Fin 0)] (Fin 1) (Fin 2) (Fin 3)
     = Inr [(0, - 1), (1, 0), (2, 0)]"
  by (simp add: generate_positions_trace index_def values_of_def fgt_def)

end
